theory Spec2Isabelle
  imports Complex_Main
begin

section \<open>Batched quadrotor dynamics (environments/drone_dynamics.py)\<close>

text \<open>
  The source computes on torch tensors of floating-point numbers. The embedding keeps the
  shapes and the order of the tensor operations and idealises the numbers as reals:
  rounding, overflow and NaN are not modelled. In particular \<open>torch.sqrt\<close> of a negative
  entry is NaN in the source, so the model speaks for the source on non-negative actions,
  and a division by a zero parameter raises or is infinite in the source, so the
  parameters are taken non-zero where the source divides by them.

  A tensor of shape \<open>(N,)\<close> is a list, one of shape \<open>(N, k)\<close> a list of \<open>N\<close> rows, one of shape
  \<open>(N, 3, 3)\<close> a list of \<open>N\<close> matrices. Operations that raise on a shape mismatch in torch are
  modelled on the shapes the functions are called with; the theorems state those shapes.
\<close>

type_synonym vec = "real list"
type_synonym mat = "real list list"
type_synonym mat3 = "real list list list"

subsection \<open>The physical parameters\<close>

text \<open>
  The module \<open>copter.py\<close> holding the dictionary \<open>copter_params\<close> is not part of the
  sources, so the parameters are an argument of every function that reads them.
\<close>

record copter_params =
  mass :: real
  thrust_factor :: real
  arm_length :: real
  drag_factor :: real
  max_rotor_speed :: real
  rotor_speed_half_time :: real
  rotor_inertia :: real
  translational_drag :: vec
  rotational_drag :: vec
  frame_inertia :: vec
  gravity :: vec

subsection \<open>Tensor operations\<close>

text \<open>\<open>X[:, i]\<close> and \<open>X[:, a:b]\<close>.\<close>

definition col :: "nat \<Rightarrow> mat \<Rightarrow> vec" where
  "col i X = map (\<lambda>r. r ! i) X"

definition cols :: "nat \<Rightarrow> nat \<Rightarrow> mat \<Rightarrow> mat" where
  "cols a b X = map (\<lambda>r. take (b - a) (drop a r)) X"

text \<open>Elementwise arithmetic on tensors of one shape.\<close>

definition vadd :: "vec \<Rightarrow> vec \<Rightarrow> vec" where
  "vadd u v = map2 (+) u v"

definition vsub :: "vec \<Rightarrow> vec \<Rightarrow> vec" where
  "vsub u v = map2 (-) u v"

definition vmul :: "vec \<Rightarrow> vec \<Rightarrow> vec" where
  "vmul u v = map2 (*) u v"

definition vdiv :: "vec \<Rightarrow> vec \<Rightarrow> vec" where
  "vdiv u v = map2 (/) u v"

definition vneg :: "vec \<Rightarrow> vec" where
  "vneg u = map uminus u"

definition vscale :: "real \<Rightarrow> vec \<Rightarrow> vec" where
  "vscale c u = map (\<lambda>x. c * x) u"

definition madd :: "mat \<Rightarrow> mat \<Rightarrow> mat" where
  "madd A B = map2 vadd A B"

definition msub :: "mat \<Rightarrow> mat \<Rightarrow> mat" where
  "msub A B = map2 vsub A B"

definition mscale :: "real \<Rightarrow> mat \<Rightarrow> mat" where
  "mscale c A = map (vscale c) A"

text \<open>
  Broadcasting a tensor of shape \<open>(k,)\<close> against one of shape \<open>(N, k)\<close>: the vector meets
  every row.
\<close>

definition row_add :: "mat \<Rightarrow> vec \<Rightarrow> mat" where
  "row_add A v = map (\<lambda>r. vadd r v) A"

definition row_sub :: "mat \<Rightarrow> vec \<Rightarrow> mat" where
  "row_sub A v = map (\<lambda>r. vsub r v) A"

definition row_mul :: "vec \<Rightarrow> mat \<Rightarrow> mat" where
  "row_mul v A = map (\<lambda>r. vmul v r) A"

definition row_div :: "mat \<Rightarrow> vec \<Rightarrow> mat" where
  "row_div A v = map (\<lambda>r. vdiv r v) A"

text \<open>
  \<open>torch.transpose(X, 0, 1)\<close> and \<open>X.t()\<close> of a two-dimensional tensor. A tensor with no row
  is written \<open>[]\<close> whatever its second dimension is.
\<close>

definition transpose01 :: "mat \<Rightarrow> mat" where
  "transpose01 X = (case X of [] \<Rightarrow> [] | r # _ \<Rightarrow> map (\<lambda>j. col j X) [0..<length r])"

text \<open>\<open>torch.vstack\<close> and \<open>torch.stack\<close> (along dimension 0) of tensors of shape \<open>(N,)\<close>.\<close>

definition vstack :: "vec list \<Rightarrow> mat" where
  "vstack cs = cs"

text \<open>\<open>torch.stack((m1, m2, m3), dim=1)\<close> of three tensors of shape \<open>(N, 3)\<close>.\<close>

definition stack_dim1 :: "mat \<Rightarrow> mat \<Rightarrow> mat \<Rightarrow> mat3" where
  "stack_dim1 m1 m2 m3 = map (\<lambda>n. [m1 ! n, m2 ! n, m3 ! n]) [0..<length m1]"

text \<open>\<open>torch.transpose(W, 1, 2)\<close> of a batch of matrices.\<close>

definition transpose12 :: "mat3 \<Rightarrow> mat3" where
  "transpose12 W = map transpose01 W"

text \<open>\<open>torch.hstack\<close> of tensors of shape \<open>(N, k\<^sub>i)\<close>: the rows are concatenated.\<close>

definition hstack :: "mat list \<Rightarrow> mat" where
  "hstack Bs = (case Bs of [] \<Rightarrow> [] | B # _ \<Rightarrow> map (\<lambda>n. concat (map (\<lambda>X. X ! n) Bs)) [0..<length B])"

text \<open>Matrix products: a matrix with a vector, two matrices, and their batched forms.\<close>

definition dot :: "vec \<Rightarrow> vec \<Rightarrow> real" where
  "dot u v = sum_list (vmul u v)"

definition matvec :: "mat \<Rightarrow> vec \<Rightarrow> vec" where
  "matvec A v = map (\<lambda>r. dot r v) A"

definition matmul :: "mat \<Rightarrow> mat \<Rightarrow> mat" where
  "matmul A B = map (\<lambda>r. map (\<lambda>c. dot r c) (transpose01 B)) A"

text \<open>\<open>torch.matmul\<close> of shapes \<open>(N, 3, 3)\<close> and \<open>(3,)\<close>.\<close>

definition matmul_batch_vec :: "mat3 \<Rightarrow> vec \<Rightarrow> mat" where
  "matmul_batch_vec W v = map (\<lambda>A. matvec A v) W"

text \<open>\<open>torch.matmul\<close> of shapes \<open>(3, 3)\<close> and \<open>(N, 3, 3)\<close>: the left matrix is broadcast.\<close>

definition matmul_left :: "mat \<Rightarrow> mat3 \<Rightarrow> mat3" where
  "matmul_left D W = map (\<lambda>A. matmul D A) W"

text \<open>\<open>torch.matmul\<close> of two batches of the same length.\<close>

definition matmul_batch :: "mat3 \<Rightarrow> mat3 \<Rightarrow> mat3" where
  "matmul_batch V W = map2 matmul V W"

text \<open>\<open>torch.diag\<close> of a vector.\<close>

definition diag :: "vec \<Rightarrow> mat" where
  "diag v = map (\<lambda>i. map (\<lambda>j. if i = j then v ! i else 0) [0..<length v]) [0..<length v]"

text \<open>\<open>torch.unsqueeze(X, 2)\<close> of a tensor of shape \<open>(N, 3)\<close>, giving shape \<open>(N, 3, 1)\<close>.\<close>

definition unsqueeze2 :: "mat \<Rightarrow> mat3" where
  "unsqueeze2 X = map (map (\<lambda>x. [x])) X"

text \<open>
  \<open>torch.squeeze\<close> removes every dimension of size 1. The source applies it to tensors of
  shape \<open>(N, 3, 1)\<close>: the result has shape \<open>(3,)\<close> for a batch of one vehicle and \<open>(N, 3)\<close>
  otherwise, so the result is a tensor of either rank.
\<close>

datatype tensor = T1 vec | T2 mat

definition squeeze :: "mat3 \<Rightarrow> tensor" where
  "squeeze X = (if length X = 1 then T1 (concat (hd X)) else T2 (map concat X))"

text \<open>
  Arithmetic of a tensor of shape \<open>(N, 3)\<close> with a squeezed one: a tensor of shape \<open>(3,)\<close> is
  broadcast over the rows.
\<close>

fun sub_tensor :: "mat \<Rightarrow> tensor \<Rightarrow> mat" where
  "sub_tensor A (T1 v) = row_sub A v"
| "sub_tensor A (T2 B) = msub A B"

fun add_tensor :: "mat \<Rightarrow> tensor \<Rightarrow> mat" where
  "add_tensor A (T1 v) = row_add A v"
| "add_tensor A (T2 B) = madd A B"

fun scale_tensor :: "real \<Rightarrow> tensor \<Rightarrow> tensor" where
  "scale_tensor c (T1 v) = T1 (vscale c v)"
| "scale_tensor c (T2 B) = T2 (mscale c B)"

text \<open>\<open>torch.cross(A, B, dim=1)\<close> of two tensors of shape \<open>(N, 3)\<close>.\<close>

definition cross3 :: "vec \<Rightarrow> vec \<Rightarrow> vec" where
  "cross3 u v = [u ! 1 * v ! 2 - u ! 2 * v ! 1,
                 u ! 2 * v ! 0 - u ! 0 * v ! 2,
                 u ! 0 * v ! 1 - u ! 1 * v ! 0]"

definition cross_dim1 :: "mat \<Rightarrow> mat \<Rightarrow> mat" where
  "cross_dim1 A B = map2 cross3 A B"

subsection \<open>Frame transforms\<close>

definition world_to_body_matrix :: "mat \<Rightarrow> mat3" where
  "world_to_body_matrix attitude =
    (let roll = col 0 attitude;
         pitch = col 1 attitude;
         yaw = col 2 attitude;
         Cy = map cos yaw;
         Sy = map sin yaw;
         Cp = map cos pitch;
         Sp = map sin pitch;
         Cr = map cos roll;
         Sr = map sin roll;
         m1 = transpose01 (vstack [vmul Cy Cp, vmul Sy Cp, vneg Sp]);
         m2 = transpose01 (vstack
                [vsub (vmul (vmul Cy Sp) Sr) (vmul Cr Sy),
                 vadd (vmul Cr Cy) (vmul (vmul Sr Sy) Sp),
                 vmul Cp Sr]);
         m3 = transpose01 (vstack
                [vadd (vmul (vmul Cy Sp) Cr) (vmul Sr Sy),
                 vsub (vmul (vmul Cr Sy) Sp) (vmul Cy Sr),
                 vmul Cr Cp])
     in stack_dim1 m1 m2 m3)"

definition to_euler_matrix :: "mat \<Rightarrow> mat3" where
  "to_euler_matrix attitude =
    (let pitch = col 1 attitude;
         roll = col 0 attitude;
         Cp = map cos pitch;
         Sp = map sin pitch;
         Cr = map cos roll;
         Sr = map sin roll;
         m1 = transpose01 (vstack
                [replicate (length Sp) 1, replicate (length Sp) 0, vneg Sp]);
         m2 = transpose01 (vstack [replicate (length Sr) 0, Cr, vmul Cp Sr]);
         m3 = transpose01 (vstack [replicate (length Sr) 0, vneg Sr, vmul Cp Cr])
     in stack_dim1 m1 m2 m3)"

definition euler_rate :: "mat \<Rightarrow> mat \<Rightarrow> tensor" where
  "euler_rate attitude angular_velocity =
    (let euler_matrix = to_euler_matrix attitude;
         together = matmul_batch euler_matrix (unsqueeze2 angular_velocity)
     in squeeze together)"

subsection \<open>Forces and torques\<close>

definition linear_dynamics :: "copter_params \<Rightarrow> mat \<Rightarrow> mat \<Rightarrow> mat \<Rightarrow> mat" where
  "linear_dynamics cp rotor_speed attitude velocity =
    (let m = mass cp;
         b = thrust_factor cp;
         Kt = translational_drag cp;
         world_to_body = world_to_body_matrix attitude;
         body_to_world = transpose12 world_to_body;
         squared_speed = map sum_list (map (map (\<lambda>x. x\<^sup>2)) rotor_speed);
         constant_vec = [0, 0, 1];
         thrust = mscale (b / m)
                    (transpose01
                       (row_mul squared_speed
                          (transpose01 (matmul_batch_vec body_to_world constant_vec))));
         Ktw = matmul_batch body_to_world (matmul_left (diag Kt) world_to_body);
         drag = squeeze
                  (map (map (map (\<lambda>x. x / m))) (matmul_batch Ktw (unsqueeze2 velocity)));
         thrust_minus_drag = row_add (sub_tensor thrust drag) (gravity cp)
     in thrust_minus_drag)"

definition propeller_torques :: "copter_params \<Rightarrow> mat \<Rightarrow> mat" where
  "propeller_torques cp rotor_speeds =
    (let squared_speeds = map (map (\<lambda>x. x\<^sup>2)) rotor_speeds;
         r0 = col 0 squared_speeds;
         r1 = col 1 squared_speeds;
         r2 = col 2 squared_speeds;
         r3 = col 3 squared_speeds;
         Lb = arm_length cp * thrust_factor cp;
         d = drag_factor cp;
         motor_torque = vsub (vsub (vadd r3 r1) r2) r0;
         B = transpose01 (vstack
               [vscale Lb (vsub r3 r1), vscale Lb (vsub r0 r2), vscale d motor_torque])
     in B)"

definition net_rotor_speed :: "mat \<Rightarrow> vec" where
  "net_rotor_speed rotorspeeds =
     vsub (vadd (vsub (col 0 rotorspeeds) (col 1 rotorspeeds)) (col 2 rotorspeeds))
          (col 3 rotorspeeds)"

definition angular_momentum_body_frame :: "copter_params \<Rightarrow> mat \<Rightarrow> mat \<Rightarrow> mat" where
  "angular_momentum_body_frame cp rotor_speeds angular_velocity =
    (let av = angular_velocity;
         J = rotor_inertia cp;
         Kr = rotational_drag cp;
         inertia = frame_inertia cp;
         transformed_av = vstack [col 2 av, vneg (col 1 av), replicate (length av) 0];
         gyro = transpose01
                  (row_mul (map (\<lambda>x. x * J) (net_rotor_speed rotor_speeds)) transformed_av);
         drag = row_mul Kr av;
         Mp = propeller_torques cp rotor_speeds;
         B = msub (madd (msub Mp drag) gyro) (cross_dim1 av (row_mul inertia av))
     in B)"

subsection \<open>The integrator\<close>

definition simulate_quadrotor :: "copter_params \<Rightarrow> mat \<Rightarrow> mat \<Rightarrow> real \<Rightarrow> mat" where
  "simulate_quadrotor cp action state dt =
    (let position = cols 0 3 state;
         attitude = cols 3 6 state;
         velocity = cols 6 9 state;
         rotor_speed = cols 9 13 state;
         desired_rotor_speeds = cols 13 17 state;
         angular_velocity = cols 17 20 state;
         desired_rotor_speeds = mscale (max_rotor_speed cp) (map (map sqrt) action);
         gamma = 1 - (1 / 2) powr (dt / rotor_speed_half_time cp);
         dw = mscale gamma (msub desired_rotor_speeds rotor_speed);
         rotor_speed = madd rotor_speed dw;
         rotor_speed = map2 (map2 max) rotor_speed
                         (map (\<lambda>r. replicate (length r) 0) rotor_speed);
         acceleration = linear_dynamics cp rotor_speed attitude velocity;
         ang_momentum = angular_momentum_body_frame cp rotor_speed angular_velocity;
         angular_acc = row_div ang_momentum (frame_inertia cp);
         position = madd (madd position (mscale (0.5 * dt * dt) acceleration))
                         (mscale (0.5 * dt) velocity);
         velocity = madd velocity (mscale dt acceleration);
         angular_velocity = madd angular_velocity (mscale dt angular_acc);
         attitude = add_tensor attitude
                      (scale_tensor dt (euler_rate attitude angular_velocity))
     in hstack [position, attitude, velocity, rotor_speed, desired_rotor_speeds,
                angular_velocity])"

subsection \<open>Repeated steps\<close>

text \<open>
  A caller advances a batch by calling \<open>simulate_quadrotor\<close> once per action batch, each
  call on the state the call before returned.
\<close>

fun simulate_steps :: "copter_params \<Rightarrow> real \<Rightarrow> mat list \<Rightarrow> mat \<Rightarrow> mat" where
  "simulate_steps cp dt [] state = state"
| "simulate_steps cp dt (action # actions) state =
     simulate_steps cp dt actions (simulate_quadrotor cp action state dt)"

subsection \<open>Well-formed inputs\<close>

text \<open>
  The vector parameters have three entries and the parameters the source divides by are
  not zero. A state batch has rows of 20 entries, an action batch has one row of 4 entries
  for every state row.
\<close>

definition params_ok :: "copter_params \<Rightarrow> bool" where
  "params_ok cp \<longleftrightarrow>
     length (translational_drag cp) = 3 \<and> length (rotational_drag cp) = 3 \<and>
     length (frame_inertia cp) = 3 \<and> length (gravity cp) = 3 \<and>
     mass cp \<noteq> 0 \<and> rotor_speed_half_time cp \<noteq> 0 \<and> 0 \<notin> set (frame_inertia cp)"

definition state_ok :: "mat \<Rightarrow> bool" where
  "state_ok state \<longleftrightarrow> (\<forall>s\<in>set state. length s = 20)"

definition action_ok :: "mat \<Rightarrow> mat \<Rightarrow> bool" where
  "action_ok action state \<longleftrightarrow>
     length action = length state \<and> (\<forall>a\<in>set action. length a = 4)"

definition nonneg :: "mat \<Rightarrow> bool" where
  "nonneg X \<longleftrightarrow> (\<forall>r\<in>set X. \<forall>x\<in>set r. 0 \<le> x)"

subsection \<open>The computation for one vehicle\<close>

text \<open>
  The same arithmetic written for a single row of the batch. These functions are not in
  the source; the batched functions above are proved equal to them row by row, and the
  properties of the batch are then read off one vehicle.
\<close>

definition rot :: "vec \<Rightarrow> mat" where
  "rot a =
    (let r = a ! 0; p = a ! 1; y = a ! 2
     in [[cos y * cos p, sin y * cos p, - sin p],
         [cos y * sin p * sin r - cos r * sin y, cos r * cos y + sin r * sin y * sin p,
          cos p * sin r],
         [cos y * sin p * cos r + sin r * sin y, cos r * sin y * sin p - cos y * sin r,
          cos r * cos p]])"

definition eul :: "vec \<Rightarrow> mat" where
  "eul a =
    (let p = a ! 1; r = a ! 0
     in [[1, 0, - sin p],
         [0, cos r, cos p * sin r],
         [0, - sin r, cos p * cos r]])"

definition thrust1 :: "copter_params \<Rightarrow> vec \<Rightarrow> vec \<Rightarrow> vec" where
  "thrust1 cp rs a =
     vscale (thrust_factor cp / mass cp)
       (vscale (sum_list (map (\<lambda>x. x\<^sup>2) rs)) (matvec (transpose01 (rot a)) [0, 0, 1]))"

definition drag1 :: "copter_params \<Rightarrow> vec \<Rightarrow> vec \<Rightarrow> vec" where
  "drag1 cp a v =
     concat (map (map (\<lambda>x. x / mass cp))
       (matmul (matmul (transpose01 (rot a)) (matmul (diag (translational_drag cp)) (rot a)))
          (map (\<lambda>y. [y]) v)))"

definition lin1 :: "copter_params \<Rightarrow> vec \<Rightarrow> vec \<Rightarrow> vec \<Rightarrow> vec" where
  "lin1 cp rs a v = vadd (vsub (thrust1 cp rs a) (drag1 cp a v)) (gravity cp)"

definition torques1 :: "copter_params \<Rightarrow> vec \<Rightarrow> vec" where
  "torques1 cp rs =
    (let squared_speeds = map (\<lambda>x. x\<^sup>2) rs;
         r0 = squared_speeds ! 0;
         r1 = squared_speeds ! 1;
         r2 = squared_speeds ! 2;
         r3 = squared_speeds ! 3;
         Lb = arm_length cp * thrust_factor cp;
         d = drag_factor cp
     in [Lb * (r3 - r1), Lb * (r0 - r2), d * (r3 + r1 - r2 - r0)])"

definition net1 :: "vec \<Rightarrow> real" where
  "net1 rs = rs ! 0 - rs ! 1 + rs ! 2 - rs ! 3"

definition ang1 :: "copter_params \<Rightarrow> vec \<Rightarrow> vec \<Rightarrow> vec" where
  "ang1 cp rs av =
    (let J = rotor_inertia cp;
         gyro = [net1 rs * J * av ! 2, net1 rs * J * - av ! 1, net1 rs * J * 0];
         drag = vmul (rotational_drag cp) av;
         Mp = torques1 cp rs
     in vsub (vadd (vsub Mp drag) gyro) (cross3 av (vmul (frame_inertia cp) av)))"

definition euler_rate1 :: "vec \<Rightarrow> vec \<Rightarrow> vec" where
  "euler_rate1 a av = concat (matmul (eul a) (map (\<lambda>y. [y]) av))"

definition desired1 :: "copter_params \<Rightarrow> vec \<Rightarrow> vec" where
  "desired1 cp a = vscale (max_rotor_speed cp) (map sqrt a)"

definition rotor1 :: "copter_params \<Rightarrow> real \<Rightarrow> vec \<Rightarrow> vec \<Rightarrow> vec" where
  "rotor1 cp dt a s =
    (let rotor_speed = take 4 (drop 9 s);
         gamma = 1 - (1 / 2) powr (dt / rotor_speed_half_time cp);
         dw = vscale gamma (vsub (desired1 cp a) rotor_speed)
     in map (\<lambda>x. max x 0) (vadd rotor_speed dw))"

definition acceleration1 :: "copter_params \<Rightarrow> real \<Rightarrow> vec \<Rightarrow> vec \<Rightarrow> vec" where
  "acceleration1 cp dt a s = lin1 cp (rotor1 cp dt a s) (take 3 (drop 3 s)) (take 3 (drop 6 s))"

definition position1 :: "copter_params \<Rightarrow> real \<Rightarrow> vec \<Rightarrow> vec \<Rightarrow> vec" where
  "position1 cp dt a s =
     vadd (vadd (take 3 s) (vscale (0.5 * dt * dt) (acceleration1 cp dt a s)))
          (vscale (0.5 * dt) (take 3 (drop 6 s)))"

definition velocity1 :: "copter_params \<Rightarrow> real \<Rightarrow> vec \<Rightarrow> vec \<Rightarrow> vec" where
  "velocity1 cp dt a s = vadd (take 3 (drop 6 s)) (vscale dt (acceleration1 cp dt a s))"

definition angular_velocity1 :: "copter_params \<Rightarrow> real \<Rightarrow> vec \<Rightarrow> vec \<Rightarrow> vec" where
  "angular_velocity1 cp dt a s =
     vadd (take 3 (drop 17 s))
       (vscale dt (vdiv (ang1 cp (rotor1 cp dt a s) (take 3 (drop 17 s))) (frame_inertia cp)))"

definition attitude1 :: "copter_params \<Rightarrow> real \<Rightarrow> vec \<Rightarrow> vec \<Rightarrow> vec" where
  "attitude1 cp dt a s =
     vadd (take 3 (drop 3 s))
       (vscale dt (euler_rate1 (take 3 (drop 3 s)) (angular_velocity1 cp dt a s)))"

definition step1 :: "copter_params \<Rightarrow> real \<Rightarrow> vec \<Rightarrow> vec \<Rightarrow> vec" where
  "step1 cp dt a s =
     position1 cp dt a s @ attitude1 cp dt a s @ velocity1 cp dt a s @ rotor1 cp dt a s
       @ desired1 cp a @ angular_velocity1 cp dt a s"

subsection \<open>The position update as the specification words it\<close>

text \<open>
  The specification's position update, \<open>position += 0.5 dt\<^sup>2 acceleration + dt velocity\<close>,
  with the acceleration of \<open>linear_dynamics\<close> at the updated rotor speed, the current
  attitude and the current velocity. It is compared with what \<open>simulate_quadrotor\<close>
  returns.
\<close>

definition spec_position :: "copter_params \<Rightarrow> mat \<Rightarrow> mat \<Rightarrow> real \<Rightarrow> mat" where
  "spec_position cp action state dt =
    (let rotor_speed = cols 9 13 (simulate_quadrotor cp action state dt);
         acceleration = linear_dynamics cp rotor_speed (cols 3 6 state) (cols 6 9 state)
     in madd (madd (cols 0 3 state) (mscale (0.5 * dt\<^sup>2) acceleration))
             (mscale dt (cols 6 9 state)))"

subsection \<open>Translating a batch\<close>

text \<open>The state batch with the position block of every row moved by \<open>delta\<close>.\<close>

definition shift_position :: "vec \<Rightarrow> mat \<Rightarrow> mat" where
  "shift_position delta state = map (\<lambda>s. vadd (take 3 s) delta @ drop 3 s) state"

subsection \<open>Sample inputs\<close>

text \<open>
  A parameter set with round values, and a vehicle at the origin that flies level along
  the x axis at unit speed with its rotors at rest.
\<close>

definition cp_ex :: copter_params where
  "cp_ex = \<lparr>mass = 1, thrust_factor = 1, arm_length = 1, drag_factor = 1, max_rotor_speed = 1,
     rotor_speed_half_time = 1, rotor_inertia = 1, translational_drag = [0, 0, 0],
     rotational_drag = [0, 0, 0], frame_inertia = [1, 1, 1], gravity = [0, 0, - 10]\<rparr>"

definition state_ex :: vec where
  "state_ex = [0, 0, 0, 0, 0, 0, 1, 0, 0, 0, 0, 0, 0, 0, 0, 0, 0, 0, 0, 0]"

section \<open>Dataset glue (dataset.py)\<close>

text \<open>
  A Python exception is a value. A Python value is a module, a function, a class, a
  string, some other object, a numpy array or a torch tensor.
\<close>

datatype py_error = NameError string | TypeError

datatype py_value =
  PyModule string | PyFunction string | PyClass string | PyStr string | PyObject
  | NdArray mat | Tensor mat

text \<open>
  The names bound at the top level of \<open>dataset.py\<close>: its imports, the assignment to
  \<open>device\<close>, the function and the two classes it defines.
\<close>

definition dataset_globals :: "string \<rightharpoonup> py_value" where
  "dataset_globals =
    [''torch'' \<mapsto> PyModule ''torch'',
     ''np'' \<mapsto> PyModule ''numpy'',
     ''os'' \<mapsto> PyModule ''os'',
     ''trajectory_training_data'' \<mapsto> PyFunction ''trajectory_training_data'',
     ''construct_states'' \<mapsto> PyFunction ''construct_states'',
     ''world_to_body_matrix'' \<mapsto> PyFunction ''world_to_body_matrix'',
     ''device'' \<mapsto> PyStr ''cpu'',
     ''raw_states_to_torch'' \<mapsto> PyFunction ''raw_states_to_torch'',
     ''DroneDataset'' \<mapsto> PyClass ''DroneDataset'',
     ''CartpoleDataset'' \<mapsto> PyClass ''CartpoleDataset'']"

text \<open>
  Python resolves a name read in a method body in the local scope of the method (its
  parameters), then in the globals of the module, then in the builtins; the body of the
  enclosing class and the local variables of other methods are not searched. A name bound
  in none of them raises \<open>NameError\<close>.
\<close>

definition lookup_name ::
  "(string \<rightharpoonup> py_value) \<Rightarrow> (string \<rightharpoonup> py_value) \<Rightarrow> (string \<rightharpoonup> py_value) \<Rightarrow> string
     \<Rightarrow> py_error + py_value" where
  "lookup_name locals globals builtins x =
    (case locals x of
       Some v \<Rightarrow> Inr v
     | None \<Rightarrow>
        (case globals x of
           Some v \<Rightarrow> Inr v
         | None \<Rightarrow> (case builtins x of Some v \<Rightarrow> Inr v | None \<Rightarrow> Inl (NameError x))))"

text \<open>\<open>torch.from_numpy\<close> accepts a numpy array only.\<close>

definition from_numpy :: "py_value \<Rightarrow> py_error + py_value" where
  "from_numpy v = (case v of NdArray m \<Rightarrow> Inr (Tensor m) | _ \<Rightarrow> Inl TypeError)"

text \<open>
  \<open>CartpoleDataset.to_torch(self, states)\<close> evaluates
  \<open>torch.from_numpy(state_arr_numpy).float().to(device)\<close> from left to right: the name
  \<open>torch\<close>, the argument \<open>state_arr_numpy\<close>, the call, and then the name \<open>device\<close>. The
  conversions \<open>float\<close> and \<open>to\<close> do not change the entries.
\<close>

definition CartpoleDataset_to_torch ::
  "(string \<rightharpoonup> py_value) \<Rightarrow> py_value \<Rightarrow> py_value \<Rightarrow> py_error + py_value" where
  "CartpoleDataset_to_torch builtins self states =
    (let locals = [''self'' \<mapsto> self, ''states'' \<mapsto> states]
     in case lookup_name locals dataset_globals builtins ''torch'' of
          Inl e \<Rightarrow> Inl e
        | Inr torch \<Rightarrow>
           (case lookup_name locals dataset_globals builtins ''state_arr_numpy'' of
              Inl e \<Rightarrow> Inl e
            | Inr arr \<Rightarrow>
               (case from_numpy arr of
                  Inl e \<Rightarrow> Inl e
                | Inr t \<Rightarrow>
                   (case lookup_name locals dataset_globals builtins ''device'' of
                      Inl e \<Rightarrow> Inl e
                    | Inr d \<Rightarrow> Inr t))))"

text \<open>A builtin scope for the sample call.\<close>

definition builtins_ex :: "string \<rightharpoonup> py_value" where
  "builtins_ex = [''len'' \<mapsto> PyFunction ''len'', ''range'' \<mapsto> PyClass ''range'']"

section \<open>Tensor operations on indexed batches\<close>

text \<open>
  A batch of \<open>N\<close> rows is \<open>map F [0..<N]\<close>. Every tensor operation of the source maps batches
  of this form to batches of this form.
\<close>

lemma map2_same: "map2 h (map f xs) (map g xs) = map (\<lambda>x. h (f x) (g x)) xs"
  by (induction xs) simp_all

lemma vadd_idx: "vadd (map f xs) (map g xs) = map (\<lambda>x. f x + g x) xs"
  by (simp add: vadd_def map2_same)

lemma vsub_idx: "vsub (map f xs) (map g xs) = map (\<lambda>x. f x - g x) xs"
  by (simp add: vsub_def map2_same)

lemma vmul_idx: "vmul (map f xs) (map g xs) = map (\<lambda>x. f x * g x) xs"
  by (simp add: vmul_def map2_same)

lemma vneg_idx: "vneg (map f xs) = map (\<lambda>x. - f x) xs"
  by (simp add: vneg_def)

lemma vscale_idx: "vscale c (map f xs) = map (\<lambda>x. c * f x) xs"
  by (simp add: vscale_def)

lemma madd_idx: "madd (map f xs) (map g xs) = map (\<lambda>x. vadd (f x) (g x)) xs"
  by (simp add: madd_def map2_same)

lemma msub_idx: "msub (map f xs) (map g xs) = map (\<lambda>x. vsub (f x) (g x)) xs"
  by (simp add: msub_def map2_same)

lemma mscale_idx: "mscale c (map f xs) = map (\<lambda>x. vscale c (f x)) xs"
  by (simp add: mscale_def)

lemma row_add_idx: "row_add (map f xs) v = map (\<lambda>x. vadd (f x) v) xs"
  by (simp add: row_add_def)

lemma row_mul_idx: "row_mul v (map f xs) = map (\<lambda>x. vmul v (f x)) xs"
  by (simp add: row_mul_def)

lemma row_div_idx: "row_div (map f xs) v = map (\<lambda>x. vdiv (f x) v) xs"
  by (simp add: row_div_def)

lemma col_idx: "col i (map f xs) = map (\<lambda>x. f x ! i) xs"
  by (simp add: col_def)

lemma cols_idx: "cols a b (map f xs) = map (\<lambda>x. take (b - a) (drop a (f x))) xs"
  by (simp add: cols_def)

lemma transpose12_idx: "transpose12 (map f xs) = map (\<lambda>x. transpose01 (f x)) xs"
  by (simp add: transpose12_def)

lemma matmul_batch_vec_idx: "matmul_batch_vec (map f xs) v = map (\<lambda>x. matvec (f x) v) xs"
  by (simp add: matmul_batch_vec_def)

lemma matmul_left_idx: "matmul_left D (map f xs) = map (\<lambda>x. matmul D (f x)) xs"
  by (simp add: matmul_left_def)

lemma matmul_batch_idx:
  "matmul_batch (map f xs) (map g xs) = map (\<lambda>x. matmul (f x) (g x)) xs"
  by (simp add: matmul_batch_def map2_same)

lemma unsqueeze2_idx: "unsqueeze2 (map f xs) = map (\<lambda>x. map (\<lambda>y. [y]) (f x)) xs"
  by (simp add: unsqueeze2_def)

lemma cross_dim1_idx:
  "cross_dim1 (map f xs) (map g xs) = map (\<lambda>x. cross3 (f x) (g x)) xs"
  by (simp add: cross_dim1_def map2_same)

lemma replicate_idx: "replicate N c = map (\<lambda>n. c) [0..<N]"
  by (simp add: map_replicate_const)

lemma transpose01_three_idx:
  "transpose01 [map f xs, map g xs, map h xs] = map (\<lambda>x. [f x, g x, h x]) xs"
  by (rule nth_equalityI) (simp_all add: transpose01_def col_def)

lemma upt3: "[0..<3] = [0, Suc 0, 2]"
  by (simp add: upt_rec numeral_3_eq_3)

lemma transpose01_rows3:
  assumes "\<forall>r\<in>set X. length r = 3"
  shows "transpose01 X = (if X = [] then [] else [col 0 X, col 1 X, col 2 X])"
  using assms by (cases X) (simp_all add: transpose01_def upt3)

lemma transpose01_idx3:
  assumes "\<forall>n<N. length (F n) = 3"
  shows "transpose01 (map F [0..<N]) =
    (if N = 0 then []
     else [map (\<lambda>n. F n ! 0) [0..<N], map (\<lambda>n. F n ! 1) [0..<N],
           map (\<lambda>n. F n ! 2) [0..<N]])"
proof -
  have "\<forall>r\<in>set (map F [0..<N]). length r = 3"
    using assms by auto
  from transpose01_rows3[OF this] show ?thesis
    by (simp add: col_idx)
qed

lemma stack_dim1_idx:
  "stack_dim1 (map f xs) (map g xs) (map h xs) = map (\<lambda>x. [f x, g x, h x]) xs"
  by (rule nth_equalityI) (simp_all add: stack_dim1_def)

lemma hstack_idx:
  "hstack [map f0 [0..<N], map f1 [0..<N], map f2 [0..<N], map f3 [0..<N], map f4 [0..<N],
      map f5 [0..<N]] = map (\<lambda>n. f0 n @ f1 n @ f2 n @ f3 n @ f4 n @ f5 n) [0..<N]"
  by (rule nth_equalityI) (simp_all add: hstack_def)

lemma squeeze_idx:
  "squeeze (map F [0..<N]) =
     (if N = 1 then T1 (concat (F 0)) else T2 (map (\<lambda>n. concat (F n)) [0..<N]))"
  by (simp add: squeeze_def)

lemma length_transpose01_rot [simp]: "length (transpose01 (rot a)) = 3"
  by (simp add: rot_def Let_def transpose01_def)

lemma length_matvec [simp]: "length (matvec M v) = length M"
  by (simp add: matvec_def)

lemma vscale3: "length t = 3 \<Longrightarrow> [c * t ! 0, c * t ! Suc 0, c * t ! 2] = vscale c t"
  by (auto simp: vscale_def numeral_3_eq_3 length_Suc_conv)

lemma double_transpose_idx:
  assumes "\<forall>n<N. length (T n) = 3"
  shows "transpose01 (row_mul (map ss [0..<N]) (transpose01 (map T [0..<N])))
         = map (\<lambda>n. vscale (ss n) (T n)) [0..<N]"
proof (cases "N = 0")
  case True
  then show ?thesis
    by (simp add: transpose01_def row_mul_def)
next
  case False
  then show ?thesis
    using assms
    by (simp add: transpose01_idx3[OF assms] row_mul_def vmul_idx transpose01_three_idx vscale3)
qed

lemma map2_max_zero: "map2 max r (replicate (length r) 0) = map (\<lambda>x. max x (0::real)) r"
  by (induction r) simp_all

section \<open>The batched functions, row by row\<close>

lemma world_to_body_matrix_idx:
  "world_to_body_matrix (map A xs) = map (\<lambda>x. rot (A x)) xs"
  by (simp add: world_to_body_matrix_def Let_def col_idx vmul_idx vadd_idx vsub_idx vneg_idx
      vstack_def transpose01_three_idx stack_dim1_idx rot_def)

lemma to_euler_matrix_idx:
  "to_euler_matrix (map A [0..<N]) = map (\<lambda>x. eul (A x)) [0..<N]"
  by (simp add: to_euler_matrix_def Let_def col_idx vmul_idx vadd_idx vsub_idx vneg_idx
      vstack_def replicate_idx transpose01_three_idx stack_dim1_idx eul_def)

text \<open>
  The drag of \<open>linear_dynamics\<close> is squeezed: for one vehicle it has shape \<open>(3,)\<close> and is
  broadcast, for any other batch it has shape \<open>(N, 3)\<close>. Both paths give the same rows.
\<close>

lemma linear_dynamics_idx:
  "linear_dynamics cp (map R [0..<N]) (map A [0..<N]) (map V [0..<N])
     = map (\<lambda>n. lin1 cp (R n) (A n) (V n)) [0..<N]"
proof (cases "N = 1")
  case True
  then show ?thesis
    by (simp add: linear_dynamics_def Let_def world_to_body_matrix_idx double_transpose_idx
        mscale_idx matmul_batch_vec_idx transpose12_idx matmul_left_idx matmul_batch_idx
        unsqueeze2_idx squeeze_idx row_sub_def row_add_def lin1_def thrust1_def drag1_def
        del: upt_Suc)
next
  case False
  then show ?thesis
    by (simp add: linear_dynamics_def Let_def world_to_body_matrix_idx double_transpose_idx
        mscale_idx matmul_batch_vec_idx transpose12_idx matmul_left_idx matmul_batch_idx
        unsqueeze2_idx squeeze_idx msub_idx row_add_idx lin1_def thrust1_def drag1_def
        del: upt_Suc)
qed

lemma propeller_torques_idx:
  "propeller_torques cp (map R xs) = map (\<lambda>x. torques1 cp (R x)) xs"
  by (simp add: propeller_torques_def Let_def col_idx vsub_idx vadd_idx vscale_idx vstack_def
      transpose01_three_idx torques1_def o_def)

lemma net_rotor_speed_idx:
  "net_rotor_speed (map R xs) = map (\<lambda>x. net1 (R x)) xs"
  by (simp add: net_rotor_speed_def col_idx vsub_idx vadd_idx net1_def)

lemma angular_momentum_body_frame_idx:
  "angular_momentum_body_frame cp (map R [0..<N]) (map W [0..<N])
     = map (\<lambda>n. ang1 cp (R n) (W n)) [0..<N]"
  by (simp add: angular_momentum_body_frame_def Let_def propeller_torques_idx
      net_rotor_speed_idx col_idx vneg_idx replicate_idx vstack_def row_mul_def row_mul_idx
      vmul_idx transpose01_three_idx msub_idx madd_idx cross_dim1_idx ang1_def o_def)

lemma attitude_update_idx:
  "add_tensor (map A [0..<N]) (scale_tensor dt (euler_rate (map A [0..<N]) (map W [0..<N])))
     = map (\<lambda>n. vadd (A n) (vscale dt (euler_rate1 (A n) (W n)))) [0..<N]"
proof (cases "N = 1")
  case True
  then show ?thesis
    by (simp add: euler_rate_def Let_def to_euler_matrix_idx unsqueeze2_idx matmul_batch_idx
        squeeze_idx row_add_def euler_rate1_def del: upt_Suc)
next
  case False
  then show ?thesis
    by (simp add: euler_rate_def Let_def to_euler_matrix_idx unsqueeze2_idx matmul_batch_idx
        squeeze_idx madd_idx mscale_idx euler_rate1_def del: upt_Suc)
qed

lemma simulate_quadrotor_idx:
  "simulate_quadrotor cp (map A [0..<N]) (map S [0..<N]) dt
     = map (\<lambda>n. step1 cp dt (A n) (S n)) [0..<N]"
  by (simp add: simulate_quadrotor_def Let_def cols_idx mscale_idx msub_idx madd_idx map2_same
      map2_max_zero linear_dynamics_idx angular_momentum_body_frame_idx row_div_idx
      attitude_update_idx hstack_idx step1_def position1_def attitude1_def velocity1_def
      rotor1_def desired1_def angular_velocity1_def acceleration1_def o_def del: upt_Suc)

lemma simulate_quadrotor_rows:
  assumes "length action = length state"
  shows "simulate_quadrotor cp action state dt = map2 (step1 cp dt) action state"
proof -
  let ?N = "length state"
  have a: "action = map (\<lambda>n. action ! n) [0..<?N]"
    using map_nth[of action] assms by simp
  have s: "state = map (\<lambda>n. state ! n) [0..<?N]"
    by (simp add: map_nth)
  have "simulate_quadrotor cp action state dt
          = map (\<lambda>n. step1 cp dt (action ! n) (state ! n)) [0..<?N]"
    using simulate_quadrotor_idx[of cp "\<lambda>n. action ! n" ?N "\<lambda>n. state ! n" dt] a s
    by simp
  also have "\<dots> = map2 (step1 cp dt) action state"
    using assms by (intro nth_equalityI) simp_all
  finally show ?thesis .
qed

section \<open>Shapes of the per-vehicle results\<close>

lemma length_vadd [simp]: "length (vadd u v) = min (length u) (length v)"
  by (simp add: vadd_def)
lemma length_vsub [simp]: "length (vsub u v) = min (length u) (length v)"
  by (simp add: vsub_def)
lemma length_vmul [simp]: "length (vmul u v) = min (length u) (length v)"
  by (simp add: vmul_def)
lemma length_vdiv [simp]: "length (vdiv u v) = min (length u) (length v)"
  by (simp add: vdiv_def)
lemma length_vscale [simp]: "length (vscale c u) = length u"
  by (simp add: vscale_def)

lemma matmul_column:
  assumes "v \<noteq> []"
  shows "matmul K (map (\<lambda>y. [y]) v) = map (\<lambda>r. [dot r v]) K"
proof -
  obtain x xs where v: "v = x # xs"
    using assms by (cases v) auto
  have "transpose01 (map (\<lambda>y. [y]) v) = [v]"
    by (simp add: v transpose01_def col_def o_def)
  then show ?thesis
    by (simp add: matmul_def)
qed

lemma length_matmul [simp]: "length (matmul A B) = length A"
  by (simp add: matmul_def)

lemma length_thrust1 [simp]: "length (thrust1 cp rs a) = 3"
  by (simp add: thrust1_def)

lemma length_drag1: "length v = 3 \<Longrightarrow> length (drag1 cp a v) = 3"
proof -
  assume "length v = 3"
  then have "v \<noteq> []" by auto
  then show ?thesis
    by (simp add: drag1_def matmul_column o_def)
qed

lemma length_lin1:
  "length (gravity cp) = 3 \<Longrightarrow> length v = 3 \<Longrightarrow> length (lin1 cp rs a v) = 3"
  by (simp add: lin1_def length_drag1)

lemma length_torques1 [simp]: "length (torques1 cp rs) = 3"
  by (simp add: torques1_def Let_def)

lemma length_cross3 [simp]: "length (cross3 u v) = 3"
  by (simp add: cross3_def)

lemma length_ang1:
  "length (rotational_drag cp) = 3 \<Longrightarrow> length w = 3 \<Longrightarrow> length (ang1 cp rs w) = 3"
  by (simp add: ang1_def Let_def)

lemma length_euler_rate1: "length w = 3 \<Longrightarrow> length (euler_rate1 a w) = 3"
proof -
  assume "length w = 3"
  then have "w \<noteq> []" by auto
  then show ?thesis
    by (simp add: euler_rate1_def matmul_column eul_def Let_def)
qed

lemma length_desired1 [simp]: "length (desired1 cp a) = length a"
  by (simp add: desired1_def)

lemma length_rotor1:
  "length a = 4 \<Longrightarrow> length s = 20 \<Longrightarrow> length (rotor1 cp dt a s) = 4"
  by (simp add: rotor1_def Let_def)

lemma length_acceleration1:
  "params_ok cp \<Longrightarrow> length s = 20 \<Longrightarrow> length (acceleration1 cp dt a s) = 3"
  by (simp add: acceleration1_def params_ok_def length_lin1)

lemma length_position1:
  "params_ok cp \<Longrightarrow> length s = 20 \<Longrightarrow> length (position1 cp dt a s) = 3"
  by (simp add: position1_def length_acceleration1)

lemma length_velocity1:
  "params_ok cp \<Longrightarrow> length s = 20 \<Longrightarrow> length (velocity1 cp dt a s) = 3"
  by (simp add: velocity1_def length_acceleration1)

lemma length_angular_velocity1:
  "params_ok cp \<Longrightarrow> length s = 20 \<Longrightarrow> length (angular_velocity1 cp dt a s) = 3"
  by (simp add: angular_velocity1_def params_ok_def length_ang1)

lemma length_attitude1:
  "params_ok cp \<Longrightarrow> length s = 20 \<Longrightarrow> length (attitude1 cp dt a s) = 3"
  by (simp add: attitude1_def length_euler_rate1 length_angular_velocity1)

lemmas block_lengths = length_position1 length_attitude1 length_velocity1 length_rotor1
  length_angular_velocity1

lemma step1_blocks:
  assumes "params_ok cp" "length a = 4" "length s = 20"
  shows "take 3 (step1 cp dt a s) = position1 cp dt a s"
    and "take 3 (drop 3 (step1 cp dt a s)) = attitude1 cp dt a s"
    and "take 3 (drop 6 (step1 cp dt a s)) = velocity1 cp dt a s"
    and "take 4 (drop 9 (step1 cp dt a s)) = rotor1 cp dt a s"
    and "take 4 (drop 13 (step1 cp dt a s)) = desired1 cp a"
    and "take 3 (drop 17 (step1 cp dt a s)) = angular_velocity1 cp dt a s"
    and "drop 17 (step1 cp dt a s) = angular_velocity1 cp dt a s"
    and "length (step1 cp dt a s) = 20"
  using assms by (simp_all add: step1_def block_lengths)

lemma map2_cong_rows:
  assumes "\<And>a s. a \<in> set A \<Longrightarrow> s \<in> set S \<Longrightarrow> f a s = g a s"
  shows "map2 f A S = map2 g A S"
  using assms by (auto dest: set_zip_leftD set_zip_rightD)

lemma cols_map2: "cols i j (map2 f A S) = map2 (\<lambda>a s. take (j - i) (drop i (f a s))) A S"
  by (simp add: cols_def split_def)

lemma simulate_blocks:
  assumes "params_ok cp" "state_ok state" "action_ok action state"
  shows "cols 0 3 (simulate_quadrotor cp action state dt) = map2 (position1 cp dt) action state"
    and "cols 3 6 (simulate_quadrotor cp action state dt) = map2 (attitude1 cp dt) action state"
    and "cols 6 9 (simulate_quadrotor cp action state dt) = map2 (velocity1 cp dt) action state"
    and "cols 9 13 (simulate_quadrotor cp action state dt) = map2 (rotor1 cp dt) action state"
    and "cols 13 17 (simulate_quadrotor cp action state dt)
           = map2 (\<lambda>a s. desired1 cp a) action state"
    and "cols 17 20 (simulate_quadrotor cp action state dt)
           = map2 (angular_velocity1 cp dt) action state"
    and "state_ok (simulate_quadrotor cp action state dt)"
    and "length (simulate_quadrotor cp action state dt) = length state"
proof -
  have len: "length action = length state"
    using assms(3) by (simp add: action_ok_def)
  have rows: "\<And>a s. a \<in> set action \<Longrightarrow> s \<in> set state \<Longrightarrow> length a = 4 \<and> length s = 20"
    using assms(2,3) by (simp add: action_ok_def state_ok_def)
  note sim = simulate_quadrotor_rows[OF len]
  have blk:
    "take 3 (step1 cp dt a s) = position1 cp dt a s"
    "take 3 (drop 3 (step1 cp dt a s)) = attitude1 cp dt a s"
    "take 3 (drop 6 (step1 cp dt a s)) = velocity1 cp dt a s"
    "take 4 (drop 9 (step1 cp dt a s)) = rotor1 cp dt a s"
    "take 4 (drop 13 (step1 cp dt a s)) = desired1 cp a"
    "take 3 (drop 17 (step1 cp dt a s)) = angular_velocity1 cp dt a s"
    "length (step1 cp dt a s) = 20"
    if "a \<in> set action" "s \<in> set state" for a s
    using step1_blocks[OF assms(1), of a s dt] rows[OF that] by simp_all
  show "cols 0 3 (simulate_quadrotor cp action state dt) = map2 (position1 cp dt) action state"
    unfolding sim cols_map2
    by (rule map2_cong_rows) (simp add: blk(1-6))
  show "cols 3 6 (simulate_quadrotor cp action state dt) = map2 (attitude1 cp dt) action state"
    unfolding sim cols_map2
    by (rule map2_cong_rows) (simp add: blk(1-6))
  show "cols 6 9 (simulate_quadrotor cp action state dt) = map2 (velocity1 cp dt) action state"
    unfolding sim cols_map2
    by (rule map2_cong_rows) (simp add: blk(1-6))
  show "cols 9 13 (simulate_quadrotor cp action state dt) = map2 (rotor1 cp dt) action state"
    unfolding sim cols_map2
    by (rule map2_cong_rows) (simp add: blk(1-6))
  show "cols 13 17 (simulate_quadrotor cp action state dt)
           = map2 (\<lambda>a s. desired1 cp a) action state"
    unfolding sim cols_map2
    by (rule map2_cong_rows) (simp add: blk(1-6))
  show "cols 17 20 (simulate_quadrotor cp action state dt)
           = map2 (angular_velocity1 cp dt) action state"
    unfolding sim cols_map2
    by (rule map2_cong_rows) (simp add: blk(1-6))
  show "state_ok (simulate_quadrotor cp action state dt)"
    unfolding sim state_ok_def
    using blk(7) by (auto dest: set_zip_leftD set_zip_rightD)
  show "length (simulate_quadrotor cp action state dt) = length state"
    unfolding sim using len by simp
qed

lemma params_ok_ex: "params_ok cp_ex"
  by (simp add: params_ok_def cp_ex_def)

lemma length_state_ex: "length state_ex = 20"
  by (simp add: state_ex_def)

section \<open>Propeller torques\<close>

lemma propeller_torques_rows: "propeller_torques cp rs = map (torques1 cp) rs"
  using propeller_torques_idx[of cp "\<lambda>x. x" rs] by simp

text \<open>
  Claim C2, as the code has it. For every batch of rotor speeds, the yaw (third) component
  of \<open>propeller_torques\<close> is \<open>drag_factor\<close> times the signed sum of the squared rotor
  speeds, \<open>rotor3\<^sup>2 + rotor1\<^sup>2 - rotor2\<^sup>2 - rotor0\<^sup>2\<close>.
\<close>

theorem propeller_torques_yaw:
  assumes "\<forall>r\<in>set rotor_speeds. length r = 4"
  shows "col 2 (propeller_torques cp rotor_speeds)
         = map (\<lambda>r. drag_factor cp * ((r ! 3)\<^sup>2 + (r ! 1)\<^sup>2 - (r ! 2)\<^sup>2 - (r ! 0)\<^sup>2))
             rotor_speeds"
  using assms by (simp add: propeller_torques_rows col_def torques1_def Let_def)

theorem propeller_torques_yaw_witness:
  "col 2 (propeller_torques cp_ex [[1, 2, 3, 4]]) = [10]"
  using propeller_torques_yaw[of "[[1, 2, 3, 4]]" cp_ex] by (simp add: cp_ex_def)

text \<open>
  Claim C2, as the specification has it, fails: for the rotor speeds \<open>(1, 0, 0, 0)\<close> the yaw
  torque is \<open>- drag_factor\<close>, while \<open>drag_factor\<close> times the net rotor speed
  \<open>rotor0 - rotor1 + rotor2 - rotor3\<close> is \<open>drag_factor\<close>.
\<close>

theorem propeller_torques_yaw_counterexample:
  "col 2 (propeller_torques cp_ex [[1, 0, 0, 0]])
     \<noteq> vscale (drag_factor cp_ex) (net_rotor_speed [[1, 0, 0, 0]])"
  by (simp add: propeller_torques_rows torques1_def Let_def col_def net_rotor_speed_def
      vsub_def vadd_def vscale_def cp_ex_def)

section \<open>The rotation matrix\<close>

lemma rot_orthonormal:
  "matmul (rot a) (transpose01 (rot a)) = [[1, 0, 0], [0, 1, 0], [0, 0, 1]]"
proof -
  define cy sy cp sp cr sr where "cy = cos (a ! 2)" and "sy = sin (a ! 2)"
    and "cp = cos (a ! 1)" and "sp = sin (a ! 1)" and "cr = cos (a ! 0)" and "sr = sin (a ! 0)"
  have sq: "cy\<^sup>2 + sy\<^sup>2 = 1" "cp\<^sup>2 + sp\<^sup>2 = 1" "cr\<^sup>2 + sr\<^sup>2 = 1"
    by (simp_all add: cy_def sy_def cp_def sp_def cr_def sr_def)
  have r: "rot a = [[cy * cp, sy * cp, - sp],
                    [cy * sp * sr - cr * sy, cr * cy + sr * sy * sp, cp * sr],
                    [cy * sp * cr + sr * sy, cr * sy * sp - cy * sr, cr * cp]]"
    by (simp add: rot_def Let_def cy_def sy_def cp_def sp_def cr_def sr_def)
  show ?thesis
    unfolding r
    by (simp add: matmul_def transpose01_def col_def dot_def vmul_def upt3;
        (intro conjI)?; (use sq in algebra))
qed


text \<open>
  Claim C6. For every attitude batch, each matrix of \<open>world_to_body_matrix\<close> multiplied
  by its own transpose is the identity matrix.
\<close>

theorem world_to_body_matrix_orthonormal:
  assumes "\<forall>a\<in>set attitude. length a = 3"
  shows "map (\<lambda>M. matmul M (transpose01 M)) (world_to_body_matrix attitude)
         = replicate (length attitude) [[1, 0, 0], [0, 1, 0], [0, 0, 1]]"
  using world_to_body_matrix_idx[of "\<lambda>x. x" attitude]
  by (simp add: o_def rot_orthonormal map_replicate_const)

theorem world_to_body_matrix_orthonormal_witness:
  "map (\<lambda>M. matmul M (transpose01 M)) (world_to_body_matrix [[0, 0, 0], [1, 2, 3]])
     = [[[1, 0, 0], [0, 1, 0], [0, 0, 1]], [[1, 0, 0], [0, 1, 0], [0, 0, 1]]]"
  using world_to_body_matrix_orthonormal[of "[[0, 0, 0], [1, 2, 3]]"] by simp

section \<open>The integrator\<close>

text \<open>
  Claim C3. A step on the batch of two rows \<open>[s1, s2]\<close> with the actions \<open>[a1, a2]\<close>
  returns the rows of the two steps on the batches \<open>[s1]\<close> and \<open>[s2]\<close> of one row, one after
  the other; two identical input rows give two identical output rows.
\<close>

theorem batch_independence:
  assumes "params_ok cp"
    and "length s1 = 20" "length s2 = 20" "length a1 = 4" "length a2 = 4"
  shows "simulate_quadrotor cp [a1, a2] [s1, s2] dt
           = simulate_quadrotor cp [a1] [s1] dt @ simulate_quadrotor cp [a2] [s2] dt
         \<and> simulate_quadrotor cp [a1, a1] [s1, s1] dt ! 0
           = simulate_quadrotor cp [a1, a1] [s1, s1] dt ! 1"
  by (simp add: simulate_quadrotor_rows)

theorem batch_independence_witness:
  "simulate_quadrotor cp_ex [[1, 1, 1, 1], [0, 0, 0, 0]] [state_ex, replicate 20 0] 1
     = simulate_quadrotor cp_ex [[1, 1, 1, 1]] [state_ex] 1
       @ simulate_quadrotor cp_ex [[0, 0, 0, 0]] [replicate 20 0] 1
   \<and> simulate_quadrotor cp_ex [[1, 1, 1, 1], [1, 1, 1, 1]] [state_ex, state_ex] 1 ! 0
     = simulate_quadrotor cp_ex [[1, 1, 1, 1], [1, 1, 1, 1]] [state_ex, state_ex] 1 ! 1"
  using batch_independence[of cp_ex state_ex "replicate 20 0" "[1, 1, 1, 1]" "[0, 0, 0, 0]" 1]
  by (simp add: params_ok_ex length_state_ex)

lemma rotor1_elementwise:
  "rotor1 cp dt a s =
     map2 (\<lambda>x r. max (r + (1 - (1 / 2) powr (dt / rotor_speed_half_time cp))
                        * (sqrt x * max_rotor_speed cp - r)) 0) a (take 4 (drop 9 s))"
  by (rule nth_equalityI)
     (simp_all add: rotor1_def Let_def desired1_def vadd_def vsub_def vscale_def mult.commute)

lemma map2_map_right: "map2 f xs (map g ys) = map2 (\<lambda>x y. f x (g y)) xs ys"
  by (simp add: zip_map2 split_def)

text \<open>
  Claim C4. For a non-negative action the rotor speed block of the state that a step returns
  is \<open>max (rotor_speed + gamma * (desired - rotor_speed)) 0\<close>, entry by entry, where
  \<open>desired = sqrt action * max_rotor_speed\<close> and
  \<open>gamma = 1 - 0.5 ^ (dt / rotor_speed_half_time)\<close>.
\<close>

theorem rotor_speed_update:
  assumes "params_ok cp" "state_ok state" "action_ok action state" "nonneg action"
  shows "cols 9 13 (simulate_quadrotor cp action state dt)
         = map2 (map2 (\<lambda>a r. max (r + (1 - (1 / 2) powr (dt / rotor_speed_half_time cp))
                                    * (sqrt a * max_rotor_speed cp - r)) 0))
             action (cols 9 13 state)"
  using simulate_blocks(4)[OF assms(1-3), of dt]
  by (simp add: cols_def map2_map_right rotor1_elementwise[abs_def])


theorem rotor_speed_update_witness:
  "cols 9 13 (simulate_quadrotor cp_ex [[1, 1, 1, 1]] [state_ex] 1)
     = [[1 / 2, 1 / 2, 1 / 2, 1 / 2]]"
  using rotor_speed_update[of cp_ex "[state_ex]" "[[1, 1, 1, 1]]" 1]
  by (simp add: params_ok_ex state_ok_def action_ok_def nonneg_def length_state_ex)
     (simp add: cols_def state_ex_def cp_ex_def)

lemma rotor1_nonneg: "\<forall>x\<in>set (rotor1 cp dt a s). 0 \<le> x"
  by (auto simp: rotor1_def Let_def)

lemma step_rotor_nonneg:
  assumes "params_ok cp" "state_ok state" "action_ok action state"
  shows "nonneg (cols 9 13 (simulate_quadrotor cp action state dt))"
  unfolding simulate_blocks(4)[OF assms] nonneg_def
  using rotor1_nonneg by (auto dest!: set_zip_leftD)

text \<open>
  Claim C5. For a non-negative action batch and \<open>dt \<ge> 0\<close> every entry of the rotor speed
  block of the state a step returns is \<open>\<ge> 0\<close>, and so it is after any number of steps
  \<open>\<ge> 1\<close>, each on the state the step before returned.
\<close>

theorem rotor_speed_nonneg:
  assumes "params_ok cp" "state_ok state"
    and "\<forall>action\<in>set actions. action_ok action state \<and> nonneg action"
    and "actions \<noteq> []" "0 \<le> dt"
  shows "nonneg (cols 9 13 (simulate_steps cp dt actions state))"
  using assms(2-4)
proof (induction actions arbitrary: state)
  case Nil
  then show ?case by simp
next
  case (Cons action actions)
  let ?next = "simulate_quadrotor cp action state dt"
  have ok: "action_ok action state"
    using Cons.prems(2) by simp
  show ?case
  proof (cases "actions = []")
    case True
    then show ?thesis
      using step_rotor_nonneg[OF assms(1) Cons.prems(1) ok] by simp
  next
    case False
    have "state_ok ?next" and len: "length ?next = length state"
      using simulate_blocks(7,8)[OF assms(1) Cons.prems(1) ok] by simp_all
    moreover have "\<forall>a\<in>set actions. action_ok a ?next \<and> nonneg a"
      using Cons.prems(2) len by (simp add: action_ok_def)
    ultimately have "nonneg (cols 9 13 (simulate_steps cp dt actions ?next))"
      using Cons.IH False by blast
    then show ?thesis by simp
  qed
qed

theorem rotor_speed_nonneg_witness:
  "nonneg (cols 9 13 (simulate_steps cp_ex 1 [[[0, 0, 0, 0]], [[0, 0, 0, 0]], [[1, 0, 4, 9]]]
     [replicate 20 0]))"
  using rotor_speed_nonneg[of cp_ex "[replicate 20 0]"
      "[[[0, 0, 0, 0]], [[0, 0, 0, 0]], [[1, 0, 4, 9]]]" 1]
  by (simp add: params_ok_ex state_ok_def action_ok_def nonneg_def)

lemma vadd_vscale_zero: "length u \<le> length v \<Longrightarrow> vadd u (vscale 0 v) = u"
  by (rule nth_equalityI) (simp_all add: vadd_def vscale_def)

lemma map2_right: "length xs = length ys \<Longrightarrow> map2 (\<lambda>x y. g y) xs ys = map g ys"
  by (rule nth_equalityI) simp_all

lemma map2_left: "length xs = length ys \<Longrightarrow> map2 (\<lambda>x y. g x) xs ys = map g xs"
  by (rule nth_equalityI) simp_all

lemma zero_dt_blocks:
  assumes "params_ok cp" "length s = 20"
  shows "position1 cp 0 a s = take 3 s"
    and "velocity1 cp 0 a s = take 3 (drop 6 s)"
    and "angular_velocity1 cp 0 a s = take 3 (drop 17 s)"
    and "attitude1 cp 0 a s = take 3 (drop 3 s)"
    and "length a = 4 \<Longrightarrow> rotor1 cp 0 a s = map (\<lambda>x. max x 0) (take 4 (drop 9 s))"
proof -
  have acc: "length (acceleration1 cp 0 a s) = 3"
    using assms by (rule length_acceleration1)
  show "position1 cp 0 a s = take 3 s"
    using assms acc by (simp add: position1_def vadd_vscale_zero)
  show "velocity1 cp 0 a s = take 3 (drop 6 s)"
    using assms acc by (simp add: velocity1_def vadd_vscale_zero)
  show av: "angular_velocity1 cp 0 a s = take 3 (drop 17 s)"
    using assms by (simp add: angular_velocity1_def vadd_vscale_zero length_ang1 params_ok_def)
  show "attitude1 cp 0 a s = take 3 (drop 3 s)"
    using assms by (simp add: attitude1_def av vadd_vscale_zero length_euler_rate1)
  show "rotor1 cp 0 a s = map (\<lambda>x. max x 0) (take 4 (drop 9 s))" if "length a = 4"
    using that assms(2)
    by (intro nth_equalityI) (simp_all add: rotor1_def Let_def vadd_def vscale_def vsub_def)
qed

text \<open>
  Claim C7. A step with \<open>dt = 0\<close> on a non-negative action returns the position, attitude,
  velocity and angular velocity blocks of its input; \<open>gamma\<close> is exactly 0 at \<open>dt = 0\<close>, so
  the rotor speed does not move towards the desired speed and is only clamped.
\<close>

theorem zero_timestep:
  assumes "params_ok cp" "state_ok state" "action_ok action state" "nonneg action"
  shows "cols 0 3 (simulate_quadrotor cp action state 0) = cols 0 3 state
       \<and> cols 3 6 (simulate_quadrotor cp action state 0) = cols 3 6 state
       \<and> cols 6 9 (simulate_quadrotor cp action state 0) = cols 6 9 state
       \<and> cols 17 20 (simulate_quadrotor cp action state 0) = cols 17 20 state
       \<and> 1 - (1 / 2) powr (0 / rotor_speed_half_time cp) = (0::real)
       \<and> cols 9 13 (simulate_quadrotor cp action state 0)
           = map (map (\<lambda>x. max x 0)) (cols 9 13 state)"
proof -
  have len: "length action = length state"
    using assms(3) by (simp add: action_ok_def)
  have rows: "\<And>s. s \<in> set state \<Longrightarrow> length s = 20"
    using assms(2) by (simp add: state_ok_def)
  have arows: "\<And>a. a \<in> set action \<Longrightarrow> length a = 4"
    using assms(3) by (simp add: action_ok_def)
  note z = zero_dt_blocks[OF assms(1) rows]
  have "map2 (position1 cp 0) action state = map2 (\<lambda>a s. take 3 s) action state"
    by (rule map2_cong_rows) (simp add: z)
  moreover have "map2 (attitude1 cp 0) action state = map2 (\<lambda>a s. take 3 (drop 3 s)) action state"
    by (rule map2_cong_rows) (simp add: z)
  moreover have "map2 (velocity1 cp 0) action state = map2 (\<lambda>a s. take 3 (drop 6 s)) action state"
    by (rule map2_cong_rows) (simp add: z)
  moreover have "map2 (angular_velocity1 cp 0) action state
      = map2 (\<lambda>a s. take 3 (drop 17 s)) action state"
    by (rule map2_cong_rows) (simp add: z)
  moreover have "map2 (rotor1 cp 0) action state
      = map2 (\<lambda>a s. map (\<lambda>x. max x 0) (take 4 (drop 9 s))) action state"
    by (rule map2_cong_rows) (simp add: z arows)
  ultimately show ?thesis
    using simulate_blocks(1-4,6)[OF assms(1-3), of 0]
    by (simp add: map2_right[OF len] cols_def)
qed

theorem zero_timestep_witness:
  "cols 0 3 (simulate_quadrotor cp_ex [[1, 1, 1, 1]] [state_ex] 0) = cols 0 3 [state_ex]
   \<and> cols 3 6 (simulate_quadrotor cp_ex [[1, 1, 1, 1]] [state_ex] 0) = cols 3 6 [state_ex]
   \<and> cols 6 9 (simulate_quadrotor cp_ex [[1, 1, 1, 1]] [state_ex] 0) = cols 6 9 [state_ex]
   \<and> cols 17 20 (simulate_quadrotor cp_ex [[1, 1, 1, 1]] [state_ex] 0) = cols 17 20 [state_ex]
   \<and> 1 - (1 / 2) powr (0 / rotor_speed_half_time cp_ex) = (0::real)
   \<and> cols 9 13 (simulate_quadrotor cp_ex [[1, 1, 1, 1]] [state_ex] 0)
       = map (map (\<lambda>x. max x 0)) (cols 9 13 [state_ex])"
  using zero_timestep[of cp_ex "[state_ex]" "[[1, 1, 1, 1]]"]
  by (simp add: params_ok_ex state_ok_def action_ok_def nonneg_def length_state_ex)

lemmas step1_defs = step1_def position1_def attitude1_def velocity1_def rotor1_def
  angular_velocity1_def acceleration1_def

lemma step1_reads:
  assumes "take 13 s = take 13 s'" "take 3 (drop 17 s) = take 3 (drop 17 s')"
  shows "step1 cp dt a s = step1 cp dt a s'"
proof -
  have "take 3 (take 13 s) = take 3 (take 13 s')"
    "take 3 (drop 3 (take 13 s)) = take 3 (drop 3 (take 13 s'))"
    "take 3 (drop 6 (take 13 s)) = take 3 (drop 6 (take 13 s'))"
    "take 4 (drop 9 (take 13 s)) = take 4 (drop 9 (take 13 s'))"
    using assms(1) by simp_all
  then have "take 3 s = take 3 s'" "take 3 (drop 3 s) = take 3 (drop 3 s')"
    "take 3 (drop 6 s) = take 3 (drop 6 s')" "take 4 (drop 9 s) = take 4 (drop 9 s')"
    by (simp_all add: drop_take)
  with assms(2) show ?thesis
    by (simp add: step1_defs)
qed

text \<open>
  Claim C8. Two input states that differ only in the desired rotor speed block (entries
  13 to 16) give the same output, and the desired rotor speed block of the output is
  \<open>sqrt action * max_rotor_speed\<close> whatever the input stored there.
\<close>

theorem desired_rotor_speed_unused:
  assumes "params_ok cp" "state_ok state" "state_ok state'" "action_ok action state"
    and "cols 0 13 state = cols 0 13 state'" "cols 17 20 state = cols 17 20 state'"
  shows "simulate_quadrotor cp action state dt = simulate_quadrotor cp action state' dt
       \<and> cols 13 17 (simulate_quadrotor cp action state dt)
           = mscale (max_rotor_speed cp) (map (map sqrt) action)"
proof -
  have len: "length action = length state"
    using assms(4) by (simp add: action_ok_def)
  have len': "length state = length state'"
    using assms(5) by (auto simp: cols_def dest: map_eq_imp_length_eq)
  have rd: "take 13 (state ! n) = take 13 (state' ! n)
      \<and> take 3 (drop 17 (state ! n)) = take 3 (drop 17 (state' ! n))" if "n < length state" for n
  proof -
    have "cols 0 13 state ! n = cols 0 13 state' ! n" "cols 17 20 state ! n = cols 17 20 state' ! n"
      using assms(5,6) by simp_all
    then show ?thesis
      using that len' by (simp add: cols_def)
  qed
  have "step1 cp dt (action ! n) (state ! n) = step1 cp dt (action ! n) (state' ! n)"
    if "n < length state" for n
    using rd[OF that] by (intro step1_reads) simp_all
  then have "map2 (step1 cp dt) action state = map2 (step1 cp dt) action state'"
    using len len' by (intro nth_equalityI) simp_all
  then have "simulate_quadrotor cp action state dt = simulate_quadrotor cp action state' dt"
    using len len' by (simp add: simulate_quadrotor_rows)
  moreover have "cols 13 17 (simulate_quadrotor cp action state dt)
      = mscale (max_rotor_speed cp) (map (map sqrt) action)"
    using simulate_blocks(5)[OF assms(1,2,4), of dt]
    by (simp add: map2_left[OF len] mscale_def desired1_def)
  ultimately show ?thesis by simp
qed

theorem desired_rotor_speed_unused_witness:
  "simulate_quadrotor cp_ex [[1, 4, 9, 16]] [state_ex] 1
     = simulate_quadrotor cp_ex [[1, 4, 9, 16]]
         [[0, 0, 0, 0, 0, 0, 1, 0, 0, 0, 0, 0, 0, 5, 6, 7, 8, 0, 0, 0]] 1
   \<and> cols 13 17 (simulate_quadrotor cp_ex [[1, 4, 9, 16]] [state_ex] 1)
     = mscale (max_rotor_speed cp_ex) (map (map sqrt) [[1, 4, 9, 16]])"
  by (rule desired_rotor_speed_unused)
     (simp_all add: params_ok_ex state_ok_def action_ok_def cols_def state_ex_def)

lemma vadd_shift:
  "vadd (vadd (vadd p d) x) y = vadd (vadd (vadd p x) y) d"
  by (rule nth_equalityI) (auto simp: vadd_def)

lemma step1_shift:
  assumes "params_ok cp" "length a = 4" "length s = 20" "length delta = 3"
  shows "step1 cp dt a (vadd (take 3 s) delta @ drop 3 s)
         = vadd (take 3 (step1 cp dt a s)) delta @ drop 3 (step1 cp dt a s)"
proof -
  let ?s = "vadd (take 3 s) delta @ drop 3 s"
  have l: "length (vadd (take 3 s) delta) = 3"
    using assms by simp
  have rd: "take 3 ?s = vadd (take 3 s) delta" "drop 3 ?s = drop 3 s"
    "drop 6 ?s = drop 6 s" "drop 9 ?s = drop 9 s" "drop 17 ?s = drop 17 s"
    using l by simp_all
  have same: "rotor1 cp dt a ?s = rotor1 cp dt a s"
    "acceleration1 cp dt a ?s = acceleration1 cp dt a s"
    "velocity1 cp dt a ?s = velocity1 cp dt a s"
    "angular_velocity1 cp dt a ?s = angular_velocity1 cp dt a s"
    "attitude1 cp dt a ?s = attitude1 cp dt a s"
    unfolding rotor1_def acceleration1_def velocity1_def angular_velocity1_def attitude1_def rd
    by simp_all
  have pos: "position1 cp dt a ?s = vadd (position1 cp dt a s) delta"
    unfolding position1_def same rd by (rule vadd_shift)
  have lp: "length (position1 cp dt a s) = 3"
    using assms by (simp add: length_position1)
  show ?thesis
    unfolding step1_def same pos using lp by simp
qed

text \<open>
  Claim C9. Moving the position block of the input by \<open>delta\<close> moves the position block of
  the output by \<open>delta\<close> and changes no other entry of the output.
\<close>

theorem translation_equivariance:
  assumes "params_ok cp" "state_ok state" "action_ok action state" "length delta = 3"
  shows "simulate_quadrotor cp action (shift_position delta state) dt
         = shift_position delta (simulate_quadrotor cp action state dt)"
proof -
  have len: "length action = length state"
    using assms(3) by (simp add: action_ok_def)
  have rows: "\<And>a s. a \<in> set action \<Longrightarrow> s \<in> set state \<Longrightarrow> length a = 4 \<and> length s = 20"
    using assms(2,3) by (simp add: action_ok_def state_ok_def)
  have "simulate_quadrotor cp action (shift_position delta state) dt
      = map2 (\<lambda>a s. step1 cp dt a (vadd (take 3 s) delta @ drop 3 s)) action state"
    using len by (simp add: simulate_quadrotor_rows shift_position_def map2_map_right)
  also have "\<dots> = map2 (\<lambda>a s. vadd (take 3 (step1 cp dt a s)) delta @ drop 3 (step1 cp dt a s))
      action state"
    by (rule map2_cong_rows) (use rows assms(1,4) in \<open>simp add: step1_shift\<close>)
  also have "\<dots> = shift_position delta (simulate_quadrotor cp action state dt)"
    using len by (simp add: simulate_quadrotor_rows shift_position_def split_def)
  finally show ?thesis .
qed

theorem translation_equivariance_witness:
  "simulate_quadrotor cp_ex [[1, 1, 1, 1]] (shift_position [1, 2, 3] [state_ex]) 1
     = shift_position [1, 2, 3] (simulate_quadrotor cp_ex [[1, 1, 1, 1]] [state_ex] 1)"
  using translation_equivariance[of cp_ex "[state_ex]" "[[1, 1, 1, 1]]" "[1, 2, 3]" 1]
  by (simp add: params_ok_ex state_ok_def action_ok_def length_state_ex)

section \<open>The cartpole dataset\<close>

text \<open>
  Claim C10. Whatever arguments \<open>CartpoleDataset.to_torch\<close> is called with, it raises
  \<open>NameError\<close> for the name \<open>state_arr_numpy\<close>, which its body reads and which is neither a
  parameter nor a global of the module (nor a builtin); it never returns a value.
\<close>

theorem to_torch_name_error:
  assumes "builtins ''state_arr_numpy'' = None"
  shows "CartpoleDataset_to_torch builtins self states = Inl (NameError ''state_arr_numpy'')"
  using assms
  by (simp add: CartpoleDataset_to_torch_def lookup_name_def dataset_globals_def)

theorem to_torch_name_error_witness:
  "CartpoleDataset_to_torch builtins_ex PyObject (NdArray [[0, 0, 0, 0]])
     = Inl (NameError ''state_arr_numpy'')"
  by (rule to_torch_name_error) (simp add: builtins_ex_def)

section \<open>The position update\<close>

lemma linear_dynamics_single: "linear_dynamics cp [r] [a] [v] = [lin1 cp r a v]"
  using linear_dynamics_idx[of cp "\<lambda>n. r" 1 "\<lambda>n. a" "\<lambda>n. v"] by simp

lemma rot_zero: "rot [0, 0, 0] = [[1, 0, 0], [0, 1, 0], [0, 0, 1]]"
  by (simp add: rot_def)

lemma transpose01_identity:
  "transpose01 [[1, 0, 0], [0, 1, 0], [0, 0, 1]] = [[1, 0, 0], [0, 1, 0], [0, 0, 1]]"
  by (simp add: transpose01_def col_def upt3)

lemma lin1_ex: "lin1 cp_ex [0, 0, 0, 0] [0, 0, 0] [1, 0, 0] = [0, 0, - 10]"
  by (simp add: lin1_def thrust1_def drag1_def rot_zero transpose01_identity matvec_def
      matmul_def dot_def vmul_def vscale_def vadd_def vsub_def diag_def cp_ex_def upt3
      transpose01_def col_def)

lemma rotor1_ex: "rotor1 cp_ex 1 [0, 0, 0, 0] state_ex = [0, 0, 0, 0]"
  by (simp add: rotor1_def Let_def desired1_def vscale_def vsub_def vadd_def state_ex_def
      cp_ex_def)

lemma position1_ex: "position1 cp_ex 1 [0, 0, 0, 0] state_ex = [1 / 2, 0, - 5]"
  by (simp add: position1_def acceleration1_def rotor1_ex)
     (simp add: state_ex_def lin1_ex vscale_def vadd_def)

text \<open>
  Claim C1 fails on the code. For a vehicle at the origin with velocity \<open>(1, 0, 0)\<close>, rotors
  at rest, the zero action and \<open>dt = 1\<close>, the step returns the position \<open>(1/2, 0, -5)\<close>:
  the source adds \<open>0.5 * dt * velocity\<close>. The position update of the specification,
  \<open>position + 0.5 dt\<^sup>2 acceleration + dt velocity\<close>, is \<open>(1, 0, -5)\<close>.
\<close>

theorem position_update_divergence:
  "cols 0 3 (simulate_quadrotor cp_ex [[0, 0, 0, 0]] [state_ex] 1) = [[1 / 2, 0, - 5]]
   \<and> spec_position cp_ex [[0, 0, 0, 0]] [state_ex] 1 = [[1, 0, - 5]]"
proof -
  have ok: "params_ok cp_ex" "state_ok [state_ex]" "action_ok [[0, 0, 0, 0]] [state_ex]"
    by (simp_all add: params_ok_ex state_ok_def action_ok_def length_state_ex)
  have code: "cols 0 3 (simulate_quadrotor cp_ex [[0, 0, 0, 0]] [state_ex] 1)
      = [[1 / 2, 0, - 5]]"
    by (simp add: simulate_blocks(1)[OF ok] position1_ex)
  have rotor: "cols 9 13 (simulate_quadrotor cp_ex [[0, 0, 0, 0]] [state_ex] 1)
      = [[0, 0, 0, 0]]"
    by (simp add: simulate_blocks(4)[OF ok] rotor1_ex)
  have blocks: "cols 0 3 [state_ex] = [[0, 0, 0]]" "cols 3 6 [state_ex] = [[0, 0, 0]]"
    "cols 6 9 [state_ex] = [[1, 0, 0]]"
    by (simp_all add: cols_def state_ex_def)
  have "spec_position cp_ex [[0, 0, 0, 0]] [state_ex] 1 = [[1, 0, - 5]]"
    by (simp add: spec_position_def Let_def rotor blocks linear_dynamics_single lin1_ex
        madd_def mscale_def vadd_def vscale_def)
  with code show ?thesis by simp
qed

end
